theory Spec2Isabelle
  imports Main
begin

section \<open>JavaScript values\<close>

text \<open>
  The values that travel through the client stub. An object is held by reference
  (\<open>JRef\<close>, an address of the heap below), so that two fields may share one object as
  they do in the source. Numbers are integers, with \<open>JNaN\<close> for the one number that is
  not strictly equal to itself.
\<close>

type_synonym addr = nat

datatype jsval =
    JUndefined
  | JNull
  | JBool bool
  | JNum int
  | JNaN
  | JStr string
  | JRef addr

text \<open>The operator \<open>===\<close>; the source's \<open>!==\<close> is its negation.\<close>

fun strict_eq :: "jsval \<Rightarrow> jsval \<Rightarrow> bool" where
  "strict_eq JNaN _ = False"
| "strict_eq _ JNaN = False"
| "strict_eq a b = (a = b)"

text \<open>The own enumerable properties of a plain object.\<close>

type_synonym obj = "string \<rightharpoonup> jsval"

text \<open>An optional object argument: \<open>None\<close> when the caller passes \<open>undefined\<close>.\<close>

fun of_ref :: "addr option \<Rightarrow> jsval" where
  "of_ref None = JUndefined"
| "of_ref (Some a) = JRef a"

text \<open>
  The names of the properties of \<open>Object.prototype\<close>, which every plain object
  inherits. Each of them holds a function, but \<open>__proto__\<close>, which is an accessor: it
  reads as the object's prototype, and assigning an object to it replaces the prototype.
\<close>

definition Object_prototype_keys :: "string list" where
  "Object_prototype_keys =
     [''constructor'', ''__defineGetter__'', ''__defineSetter__'', ''hasOwnProperty'',
      ''__lookupGetter__'', ''__lookupSetter__'', ''isPrototypeOf'', ''propertyIsEnumerable'',
      ''toString'', ''valueOf'', ''__proto__'', ''toLocaleString'']"

text \<open>
  The keys of a string that are not writable: \<open>length\<close>, and the indices below its
  length, written as decimal numbers without leading zeros.
\<close>

definition decimal_value :: "string \<Rightarrow> nat" where
  "decimal_value k = foldl (\<lambda>n c. 10 * n + (of_char c - 48)) 0 k"

definition canonical_index :: "string \<Rightarrow> bool" where
  "canonical_index k =
     (k \<noteq> [] \<and> list_all (\<lambda>c. c \<in> set ''0123456789'') k \<and> (k = ''0'' \<or> hd k \<noteq> CHR ''0''))"

definition string_own_key :: "string \<Rightarrow> string \<Rightarrow> bool" where
  "string_own_key str k = (k = ''length'' \<or> (canonical_index k \<and> decimal_value k < length str))"

section \<open>ClientStub\<close>

text \<open>
  The fields of the operation records that \<open>ClientStub\<close> pushes to \<open>$calls\<close>. A record is
  read through \<open>call[key]\<close>, which is \<open>undefined\<close> for a field the record does not have.
\<close>

datatype field =
  F_op | F_id | F_type | F_properties | F_property | F_method | F_parameters | F_event | F_listen

type_synonym call = "(field \<times> jsval) list"

definition all_fields :: "field list" where
  "all_fields =
     [F_op, F_id, F_type, F_properties, F_property, F_method, F_parameters, F_event, F_listen]"

definition get_field :: "call \<Rightarrow> field \<Rightarrow> jsval" where
  "get_field c k = (case map_of c k of None \<Rightarrow> JUndefined | Some v \<Rightarrow> v)"

text \<open>An entry of \<open>$objects\<close>: \<open>{type, properties}\<close>.\<close>

record remote_object =
  rtype :: jsval
  rproperties :: "addr option"

text \<open>The operations of the bridge, with the arguments of the method of the same name.\<close>

datatype op =
    Create string jsval "addr option"
  | Get string jsval
  | Set string "addr option"
  | Call string jsval jsval
  | Listen string jsval jsval
  | Destroy string

datatype error = Error string | TypeError

text \<open>
  The stub's two fields, \<open>$calls\<close> and \<open>$objects\<close>, together with the heap of plain
  objects that the stub shares with its callers (\<open>next_addr\<close> is the first address not
  yet allocated) and the operations buffered in the native bridge.

  \<open>$objects\<close> is a plain object. \<open>objects\<close> holds its own properties, one entry for each
  identity. Its prototype is \<open>Object.prototype\<close> (\<open>objects_proto\<close> is \<open>None\<close>) until an
  entry is assigned to the key \<open>__proto__\<close>: the assignment makes no property of that
  name, it makes the entry the prototype of \<open>$objects\<close> (\<open>objects_proto\<close> is the entry),
  between \<open>$objects\<close> and \<open>Object.prototype\<close>.
\<close>

record client =
  calls_log :: "call list"
  objects :: "string \<rightharpoonup> remote_object"
  objects_proto :: "remote_object option"
  heap :: "addr \<Rightarrow> obj"
  next_addr :: addr
  pending :: "op list"

text \<open>
  A method either returns normally or throws; the state it leaves behind is kept in
  both cases, since a push to the log is not undone by a later exception.
\<close>

type_synonym 'a result = "(error \<times> client) + ('a \<times> client)"

text \<open>The constructor: an empty log and no objects, in the heap of its callers.\<close>

definition stub_new :: "(addr \<Rightarrow> obj) \<Rightarrow> addr \<Rightarrow> client" where
  "stub_new h n =
     \<lparr>calls_log = [], objects = Map.empty, objects_proto = None, heap = h, next_addr = n,
      pending = []\<rparr>"

definition push_call :: "call \<Rightarrow> client \<Rightarrow> client" where
  "push_call c s = s\<lparr>calls_log := calls_log s @ [c]\<rparr>"

text \<open>
  \<open>this.$objects[id] = entry\<close>: a property of \<open>$objects\<close> itself, unless the key is
  \<open>__proto__\<close>.
\<close>

definition assign_entry :: "string \<Rightarrow> remote_object \<Rightarrow> client \<Rightarrow> client" where
  "assign_entry oid entry s =
     (if oid = ''__proto__'' then s\<lparr>objects_proto := Some entry\<rparr>
      else s\<lparr>objects := (objects s)(oid \<mapsto> entry)\<rparr>)"

text \<open>
  The names that \<open>$objects\<close> inherits: those of \<open>Object.prototype\<close>, and \<open>type\<close> and
  \<open>properties\<close> once an entry is its prototype. \<open>id in this.$objects\<close> holds of a property
  of its own and of an inherited name.
\<close>

definition inherited_name :: "client \<Rightarrow> string \<Rightarrow> bool" where
  "inherited_name s oid =
     (oid \<in> set Object_prototype_keys \<or>
      (objects_proto s \<noteq> None \<and> (oid = ''type'' \<or> oid = ''properties'')))"

definition has_entry :: "client \<Rightarrow> string \<Rightarrow> bool" where
  "has_entry s oid = (objects s oid \<noteq> None \<or> inherited_name s oid)"

text \<open>
  \<open>v.properties\<close> for a value \<open>v\<close>: a TypeError on \<open>undefined\<close> and \<open>null\<close>, the property
  of an object, and \<open>undefined\<close> on a boolean, a number or a string.
\<close>

fun read_properties :: "client \<Rightarrow> jsval \<Rightarrow> error + jsval" where
  "read_properties s JUndefined = Inl TypeError"
| "read_properties s JNull = Inl TypeError"
| "read_properties s (JRef a) =
     Inr (case heap s a ''properties'' of None \<Rightarrow> JUndefined | Some v \<Rightarrow> v)"
| "read_properties s v = Inr JUndefined"

text \<open>
  \<open>this.$objects[id].properties\<close>. \<open>this.$objects[id]\<close> is the prototype of \<open>$objects\<close> for
  the key \<open>__proto__\<close>, else the entry of the key, else what the key inherits: the type
  or the properties of the entry that is the prototype, or a function of
  \<open>Object.prototype\<close>; and it is \<open>undefined\<close>, of which no property can be read, for any
  other key.
\<close>

definition entry_properties :: "client \<Rightarrow> string \<Rightarrow> error + jsval" where
  "entry_properties s oid =
     (if oid = ''__proto__'' then
        (case objects_proto s of
           None \<Rightarrow> Inr JUndefined
         | Some p \<Rightarrow> Inr (of_ref (rproperties p)))
      else
        (case objects s oid of
           Some r \<Rightarrow> Inr (of_ref (rproperties r))
         | None \<Rightarrow>
             (case objects_proto s of
                Some p \<Rightarrow>
                  if oid = ''type'' then read_properties s (rtype p)
                  else if oid = ''properties'' then read_properties s (of_ref (rproperties p))
                  else if oid \<in> set Object_prototype_keys then Inr JUndefined
                  else Inl TypeError
              | None \<Rightarrow>
                  if oid \<in> set Object_prototype_keys then Inr JUndefined
                  else Inl TypeError)))"

definition stub_create :: "string \<Rightarrow> jsval \<Rightarrow> addr option \<Rightarrow> client \<Rightarrow> unit result" where
  "stub_create oid type properties s =
     (let s1 = push_call [(F_op, JStr ''create''), (F_id, JStr oid), (F_type, type),
                          (F_properties, of_ref properties)] s
      in Inr ((), assign_entry oid \<lparr>rtype = type, rproperties = properties\<rparr> s1))"

definition stub_get :: "string \<Rightarrow> jsval \<Rightarrow> client \<Rightarrow> unit result" where
  "stub_get oid property s =
     Inr ((), push_call [(F_op, JStr ''get''), (F_id, JStr oid), (F_property, property)] s)"

text \<open>
  \<open>Object.assign(target, source)\<close>: a target that is \<open>undefined\<close> or \<open>null\<close> throws a
  TypeError; a source that is \<open>undefined\<close> is skipped; into a target that is an object,
  every property of the source is written in place. A target that is a boolean, a
  number or a string is wrapped in an object that is then dropped: nothing changes,
  but writing a key that a string does not let one write throws a TypeError.
\<close>

fun object_assign :: "jsval \<Rightarrow> addr option \<Rightarrow> client \<Rightarrow> unit result" where
  "object_assign JUndefined source s = Inl (TypeError, s)"
| "object_assign JNull source s = Inl (TypeError, s)"
| "object_assign (JRef t) source s =
     (case source of
        None \<Rightarrow> Inr ((), s)
      | Some a \<Rightarrow> Inr ((), s\<lparr>heap := (heap s)(t := heap s t ++ heap s a)\<rparr>))"
| "object_assign (JStr str) source s =
     (case source of
        None \<Rightarrow> Inr ((), s)
      | Some a \<Rightarrow>
          if \<exists>k. heap s a k \<noteq> None \<and> string_own_key str k then Inl (TypeError, s)
          else Inr ((), s))"
| "object_assign target source s = Inr ((), s)"

text \<open>The object literal \<open>{}\<close>: a fresh, empty object.\<close>

definition new_object :: "client \<Rightarrow> addr \<times> client" where
  "new_object s =
     (next_addr s, s\<lparr>heap := (heap s)(next_addr s := Map.empty), next_addr := Suc (next_addr s)\<rparr>)"

definition stub_set :: "string \<Rightarrow> addr option \<Rightarrow> client \<Rightarrow> unit result" where
  "stub_set oid properties s =
     (let s1 = push_call [(F_op, JStr ''set''), (F_id, JStr oid),
                          (F_properties, of_ref properties)] s;
          s2 = (if \<not> has_entry s1 oid
                then (let (a, s') = new_object s1
                      in assign_entry oid \<lparr>rtype = JUndefined, rproperties = Some a\<rparr> s')
                else s1)
      in case entry_properties s2 oid of
           Inl err \<Rightarrow> Inl (err, s2)
         | Inr target \<Rightarrow> object_assign target properties s2)"

definition stub_call :: "string \<Rightarrow> jsval \<Rightarrow> jsval \<Rightarrow> client \<Rightarrow> unit result" where
  "stub_call oid method parameters s =
     Inr ((), push_call [(F_op, JStr ''call''), (F_id, JStr oid), (F_method, method),
                         (F_parameters, parameters)] s)"

definition stub_listen :: "string \<Rightarrow> jsval \<Rightarrow> jsval \<Rightarrow> client \<Rightarrow> unit result" where
  "stub_listen oid event l s =
     Inr ((), push_call [(F_op, JStr ''listen''), (F_id, JStr oid), (F_event, event),
                         (F_listen, l)] s)"

definition stub_destroy :: "string \<Rightarrow> client \<Rightarrow> unit result" where
  "stub_destroy oid s =
     (let s1 = push_call [(F_op, JStr ''destroy''), (F_id, JStr oid)] s
      in Inr ((), s1\<lparr>objects := (objects s1)(oid := None)\<rparr>))"

text \<open>One operation, issued through the method of its name.\<close>

fun exec :: "op \<Rightarrow> client \<Rightarrow> unit result" where
  "exec (Create oid type properties) s = stub_create oid type properties s"
| "exec (Get oid property) s = stub_get oid property s"
| "exec (Set oid properties) s = stub_set oid properties s"
| "exec (Call oid method parameters) s = stub_call oid method parameters s"
| "exec (Listen oid event l) s = stub_listen oid event l s"
| "exec (Destroy oid) s = stub_destroy oid s"

text \<open>The state a call leaves behind, whether it returned or threw.\<close>

fun state_of :: "'a result \<Rightarrow> client" where
  "state_of (Inl (e, s)) = s"
| "state_of (Inr (x, s)) = s"

text \<open>
  A caller issuing a sequence of operations through the client, one call after the
  other, going on after a call that threw.
\<close>

fun issue :: "op list \<Rightarrow> client \<Rightarrow> client" where
  "issue [] s = s"
| "issue (x # xs) s = issue xs (state_of (exec x s))"

text \<open>
  Modelled from the spec: \<open>tabris._nativeBridge.flush\<close>, of the native bridge, which is
  not among the source files. It hands the operations buffered in the bridge to the
  client in the order they were buffered, and empties the buffer; an operation that
  throws ends the flush with its exception.
\<close>

fun deliver :: "op list \<Rightarrow> client \<Rightarrow> unit result" where
  "deliver [] s = Inr ((), s)"
| "deliver (x # xs) s =
     (case exec x s of
        Inl err \<Rightarrow> Inl err
      | Inr (u, s') \<Rightarrow> deliver xs s')"

definition flush :: "client \<Rightarrow> unit result" where
  "flush s = deliver (pending s) (s\<lparr>pending := []\<rparr>)"

text \<open>
  The filter of \<open>calls\<close>: an object whose keys are fields of the operation records, or
  \<open>undefined\<close> (\<open>None\<close>), over which the \<open>for ... in\<close> loop of \<open>select\<close> does not iterate.
\<close>

type_synonym call_filter = "field \<rightharpoonup> jsval"

text \<open>
  The callback of \<open>select\<close>: the loop over the keys of \<open>filterProperties\<close>, as a loop
  over all fields that skips the ones the filter does not have.
\<close>

fun keys_match :: "call_filter \<Rightarrow> call \<Rightarrow> field list \<Rightarrow> bool" where
  "keys_match filterProperties c [] = True"
| "keys_match filterProperties c (key # keys) =
     (case filterProperties key of
        None \<Rightarrow> keys_match filterProperties c keys
      | Some v \<Rightarrow>
          (if \<not> strict_eq v (get_field c key) then False
           else keys_match filterProperties c keys))"

definition stub_select :: "call list \<Rightarrow> call_filter option \<Rightarrow> call list" where
  "stub_select this filterProperties =
     filter (\<lambda>c. case filterProperties of
                    None \<Rightarrow> True
                  | Some f \<Rightarrow> keys_match f c all_fields) this"

definition stub_calls :: "call_filter option \<Rightarrow> client \<Rightarrow> (call list) result" where
  "stub_calls filterProperties s =
     (case flush s of
        Inl err \<Rightarrow> Inl err
      | Inr (u, s') \<Rightarrow> Inr (stub_select (calls_log s') filterProperties, s'))"

definition stub_resetCalls :: "client \<Rightarrow> unit result" where
  "stub_resetCalls s =
     (case flush s of
        Inl err \<Rightarrow> Inl err
      | Inr (u, s') \<Rightarrow> Inr ((), s'\<lparr>calls_log := []\<rparr>))"


text \<open>
  The record of an operation, as the caller expects to find it in the log; the
  properties below compare the log with it.
\<close>

fun record_of :: "op \<Rightarrow> call" where
  "record_of (Create oid type properties) =
     [(F_op, JStr ''create''), (F_id, JStr oid), (F_type, type), (F_properties, of_ref properties)]"
| "record_of (Get oid property) =
     [(F_op, JStr ''get''), (F_id, JStr oid), (F_property, property)]"
| "record_of (Set oid properties) =
     [(F_op, JStr ''set''), (F_id, JStr oid), (F_properties, of_ref properties)]"
| "record_of (Call oid method parameters) =
     [(F_op, JStr ''call''), (F_id, JStr oid), (F_method, method), (F_parameters, parameters)]"
| "record_of (Listen oid event l) =
     [(F_op, JStr ''listen''), (F_id, JStr oid), (F_event, event), (F_listen, l)]"
| "record_of (Destroy oid) = [(F_op, JStr ''destroy''), (F_id, JStr oid)]"

text \<open>
  What the spec says of a filter: a record matches when each key/value pair of the
  filter is equal (\<open>===\<close>) to the record's field of that key.
\<close>

definition matches_filter :: "call_filter \<Rightarrow> call \<Rightarrow> bool" where
  "matches_filter f c = (\<forall>k v. f k = Some v \<longrightarrow> strict_eq v (get_field c k))"

section \<open>Widgets and selectors\<close>

text \<open>
  A widget proxy, as far as \<open>WidgetCollection\<close> reads it: its \<open>cid\<close>, its \<open>id\<close> (\<open>None\<close>
  when it is not a string), its \<open>classList\<close>, the name of its constructor and its
  children, what \<open>widget.children()\<close> holds. The same proxy may stand at two places of a
  tree. Two proxies are the same object when they are equal.
\<close>

datatype widget =
  Widget (cid: string) (wid: "string option") (classList: "string list")
    (constructor_name: string) (children: "widget list")

text \<open>
  A selector is a string or a function. A function given as a selector is described by
  the three things the source asks of it: whether its prototype chain reaches
  \<open>NativeObject.prototype\<close>, which widgets are \<open>instanceof\<close> it, and whether its result
  on a widget is truthy.
\<close>

datatype js_function =
  Function (reaches_NativeObject: bool) (has_instance: "widget \<Rightarrow> bool")
    (returns_truthy: "widget \<Rightarrow> bool")

datatype selector = SelString string | SelFunction js_function

definition isWidgetConstructor :: "js_function \<Rightarrow> bool" where
  "isWidgetConstructor fn = reaches_NativeObject fn"

fun isFilter :: "selector \<Rightarrow> bool" where
  "isFilter (SelFunction fn) = (\<not> isWidgetConstructor fn)"
| "isFilter (SelString s) = False"

text \<open>\<open>charAt(0)\<close> is \<open>take 1\<close>, the empty string on an empty selector; \<open>slice(1)\<close> is \<open>drop 1\<close>.\<close>

fun createMatcher :: "selector \<Rightarrow> widget \<Rightarrow> bool" where
  "createMatcher (SelFunction fn) widget = has_instance fn widget"
| "createMatcher (SelString selector) widget =
     (if take 1 selector = ''#'' then
        (let expectedId = drop 1 selector in Some expectedId = wid widget)
      else if take 1 selector = ''.'' then
        (let expectedClass = drop 1 selector in expectedClass \<in> set (classList widget))
      else if selector = ''*'' then True
      else selector = constructor_name widget)"

text \<open>
  The first line of \<open>getFilter\<close>: the test a selector stands for, a predicate as it is
  and anything else through \<open>createMatcher\<close>.
\<close>

definition selector_test :: "selector \<Rightarrow> widget \<Rightarrow> bool" where
  "selector_test selector =
     (case selector of
        SelFunction fn \<Rightarrow> if isFilter selector then returns_truthy fn else createMatcher selector
      | SelString s \<Rightarrow> createMatcher selector)"

text \<open>
  The closure that \<open>getFilter\<close> returns keeps the object \<open>matches\<close>, which it reads and
  writes at each call: the model passes it in and returns it. \<open>matches\<close> is a plain
  object, and the model holds its own properties: \<open>matches[key]\<close> is truthy for a key it
  holds as \<open>true\<close>, and for a name of \<open>Object.prototype\<close>, where it reads a function or
  the prototype. The closure never writes such a name.
\<close>

type_synonym matches = "string \<rightharpoonup> bool"

definition matches_truthy :: "matches \<Rightarrow> string \<Rightarrow> bool" where
  "matches_truthy matches key = (matches key = Some True \<or> key \<in> set Object_prototype_keys)"

definition getFilter :: "selector \<Rightarrow> widget \<Rightarrow> matches \<Rightarrow> bool \<times> matches" where
  "getFilter selector =
     (let filter = selector_test selector
      in (\<lambda>widget matches.
            if matches_truthy matches (cid widget) then (False, matches)
            else if filter widget then (True, matches(cid widget \<mapsto> True))
            else (False, matches)))"

text \<open>\<open>array.filter(filter)\<close>, with a callback that carries state.\<close>

fun array_filter ::
  "(widget \<Rightarrow> matches \<Rightarrow> bool \<times> matches) \<Rightarrow> widget list \<Rightarrow> matches \<Rightarrow> widget list \<times> matches"
where
  "array_filter f [] m = ([], m)"
| "array_filter f (w # ws) m =
     (let (keep, m1) = f w m;
          (rest, m2) = array_filter f ws m1
      in (if keep then w # rest else rest, m2))"

fun deepSelect ::
  "widget list \<Rightarrow> widget list \<Rightarrow> (widget \<Rightarrow> matches \<Rightarrow> bool \<times> matches) \<Rightarrow> matches
     \<Rightarrow> widget list \<times> matches"
where
  "deepSelect result [] f m = (result, m)"
| "deepSelect result (Widget c i cl n ks # iterable) f m =
     (let widget = Widget c i cl n ks;
          (keep, m1) = f widget m;
          result1 = (if keep then result @ [widget] else result);
          (result2, m2) =
            (if ks \<noteq> [] then deepSelect result1 ks f m1 else (result1, m1))
      in deepSelect result2 iterable f m2)"

text \<open>The array is \<open>None\<close> when the caller passes \<open>undefined\<close>.\<close>

definition select :: "widget list option \<Rightarrow> selector \<Rightarrow> bool \<Rightarrow> widget list" where
  "select array selector deep =
     (case array of
        None \<Rightarrow> []
      | Some arr \<Rightarrow>
          if arr = [] then []
          else if selector = SelString ''*'' \<and> \<not> deep then arr
          else (let filter = getFilter selector
                in if deep then fst (deepSelect [] arr filter Map.empty)
                   else fst (array_filter filter arr Map.empty)))"

section \<open>WidgetCollection\<close>

text \<open>
  A collection is its \<open>_array\<close>. \<open>selector || '*'\<close> replaces a selector that is
  \<open>undefined\<close> or the empty string.
\<close>

type_synonym collection = "widget list"

fun or_star :: "selector option \<Rightarrow> selector" where
  "or_star None = SelString ''*''"
| "or_star (Some (SelString s)) = (if s = [] then SelString ''*'' else SelString s)"
| "or_star (Some (SelFunction fn)) = SelFunction fn"

definition WidgetCollection :: "widget list option \<Rightarrow> selector option \<Rightarrow> bool \<Rightarrow> collection" where
  "WidgetCollection collection selector deep = select collection (or_star selector) deep"

definition wc_filter :: "selector option \<Rightarrow> collection \<Rightarrow> collection" where
  "wc_filter selector this = WidgetCollection (Some this) selector False"

text \<open>
  \<open>widget.parent()\<close> is a method of the widget, which is not among the source files: it
  is the parameter \<open>parent\<close>, \<open>None\<close> for a widget without a parent.
\<close>

fun parent_loop :: "(widget \<Rightarrow> widget option) \<Rightarrow> widget list \<Rightarrow> widget list \<Rightarrow> widget list" where
  "parent_loop parent result [] = result"
| "parent_loop parent result (widget # rest) =
     (case parent widget of
        None \<Rightarrow> parent_loop parent result rest
      | Some p \<Rightarrow>
          if p \<notin> set result then parent_loop parent (result @ [p]) rest
          else parent_loop parent result rest)"

definition wc_parent :: "(widget \<Rightarrow> widget option) \<Rightarrow> collection \<Rightarrow> collection option" where
  "wc_parent parent this =
     (let result = parent_loop parent [] this
      in if result \<noteq> [] then Some (WidgetCollection (Some result) None False) else None)"

definition wc_children :: "selector option \<Rightarrow> collection \<Rightarrow> collection" where
  "wc_children selector this =
     WidgetCollection (Some (concat (map children this))) selector False"

definition wc_find :: "selector option \<Rightarrow> collection \<Rightarrow> collection" where
  "wc_find selector this = WidgetCollection (Some (wc_children None this)) selector True"

text \<open>
  What the spec says of a deep search: the proxies it visits, in pre-order, from the
  children of the members; and a list cut down to the first occurrence of each \<open>cid\<close>,
  given the set of the ones seen before.
\<close>

fun preorder :: "widget \<Rightarrow> widget list" where
  "preorder (Widget c i cl n ks) = Widget c i cl n ks # concat (map preorder ks)"


fun first_by_cid :: "string set \<Rightarrow> widget list \<Rightarrow> widget list" where
  "first_by_cid seen [] = []"
| "first_by_cid seen (w # ws) =
     (if cid w \<in> seen then first_by_cid seen ws
      else w # first_by_cid (insert (cid w) seen) ws)"

text \<open>The \<open>cid\<close>s at which \<open>matches\<close> is truthy.\<close>

definition seen_of :: "matches \<Rightarrow> string set" where
  "seen_of m = {c. matches_truthy m c}"

section \<open>Bulk dispatch\<close>

text \<open>
  The methods \<open>set\<close>, \<open>on\<close>, \<open>off\<close>, \<open>once\<close>, \<open>trigger\<close>, \<open>animate\<close> and \<open>dispose\<close> of a
  widget are not among the source files. They are the parameter \<open>invoke\<close>: the method,
  the widget it is applied to, the \<open>arguments\<close> of the call and the state of the program
  give either the state in which the call returns, or the exception it throws and the
  state it leaves.
\<close>

datatype widget_method = M_set | M_on | M_off | M_once | M_trigger | M_animate | M_dispose

text \<open>\<open>Array.prototype.forEach\<close>: an exception of the callback ends the loop.\<close>

fun forEach :: "('w \<Rightarrow> 's \<Rightarrow> ('e \<times> 's) + 's) \<Rightarrow> 'w list \<Rightarrow> 's \<Rightarrow> ('e \<times> 's) + 's" where
  "forEach callback [] s = Inr s"
| "forEach callback (w # ws) s =
     (case callback w s of
        Inl err \<Rightarrow> Inl err
      | Inr s' \<Rightarrow> forEach callback ws s')"

text \<open>A bulk method returns \<open>this\<close>, or nothing (\<open>None\<close>) where the source has no \<open>return\<close>.\<close>

definition wc_set ::
  "(widget_method \<Rightarrow> widget \<Rightarrow> 'a \<Rightarrow> 's \<Rightarrow> ('e \<times> 's) + 's) \<Rightarrow> collection \<Rightarrow> 'a \<Rightarrow> 's
     \<Rightarrow> ('e \<times> 's) + (collection option \<times> 's)" where
  "wc_set invoke this arguments s =
     (case forEach (\<lambda>widget. invoke M_set widget arguments) this s of
        Inl err \<Rightarrow> Inl err
      | Inr s' \<Rightarrow> Inr (Some this, s'))"

definition wc_on ::
  "(widget_method \<Rightarrow> widget \<Rightarrow> 'a \<Rightarrow> 's \<Rightarrow> ('e \<times> 's) + 's) \<Rightarrow> collection \<Rightarrow> 'a \<Rightarrow> 's
     \<Rightarrow> ('e \<times> 's) + (collection option \<times> 's)" where
  "wc_on invoke this arguments s =
     (case forEach (\<lambda>widget. invoke M_on widget arguments) this s of
        Inl err \<Rightarrow> Inl err
      | Inr s' \<Rightarrow> Inr (Some this, s'))"

definition wc_off ::
  "(widget_method \<Rightarrow> widget \<Rightarrow> 'a \<Rightarrow> 's \<Rightarrow> ('e \<times> 's) + 's) \<Rightarrow> collection \<Rightarrow> 'a \<Rightarrow> 's
     \<Rightarrow> ('e \<times> 's) + (collection option \<times> 's)" where
  "wc_off invoke this arguments s =
     (case forEach (\<lambda>widget. invoke M_off widget arguments) this s of
        Inl err \<Rightarrow> Inl err
      | Inr s' \<Rightarrow> Inr (Some this, s'))"

definition wc_once ::
  "(widget_method \<Rightarrow> widget \<Rightarrow> 'a \<Rightarrow> 's \<Rightarrow> ('e \<times> 's) + 's) \<Rightarrow> collection \<Rightarrow> 'a \<Rightarrow> 's
     \<Rightarrow> ('e \<times> 's) + (collection option \<times> 's)" where
  "wc_once invoke this arguments s =
     (case forEach (\<lambda>widget. invoke M_once widget arguments) this s of
        Inl err \<Rightarrow> Inl err
      | Inr s' \<Rightarrow> Inr (Some this, s'))"

definition wc_trigger ::
  "(widget_method \<Rightarrow> widget \<Rightarrow> 'a \<Rightarrow> 's \<Rightarrow> ('e \<times> 's) + 's) \<Rightarrow> collection \<Rightarrow> 'a \<Rightarrow> 's
     \<Rightarrow> ('e \<times> 's) + (collection option \<times> 's)" where
  "wc_trigger invoke this arguments s =
     (case forEach (\<lambda>widget. invoke M_trigger widget arguments) this s of
        Inl err \<Rightarrow> Inl err
      | Inr s' \<Rightarrow> Inr (Some this, s'))"

definition wc_animate ::
  "(widget_method \<Rightarrow> widget \<Rightarrow> 'a \<Rightarrow> 's \<Rightarrow> ('e \<times> 's) + 's) \<Rightarrow> collection \<Rightarrow> 'a \<Rightarrow> 's
     \<Rightarrow> ('e \<times> 's) + (collection option \<times> 's)" where
  "wc_animate invoke this arguments s =
     (case forEach (\<lambda>widget. invoke M_animate widget arguments) this s of
        Inl err \<Rightarrow> Inl err
      | Inr s' \<Rightarrow> Inr (None, s'))"

definition wc_dispose ::
  "(widget_method \<Rightarrow> widget \<Rightarrow> 'a \<Rightarrow> 's \<Rightarrow> ('e \<times> 's) + 's) \<Rightarrow> collection \<Rightarrow> 'a \<Rightarrow> 's
     \<Rightarrow> ('e \<times> 's) + (collection option \<times> 's)" where
  "wc_dispose invoke this arguments s =
     (case forEach (\<lambda>widget. invoke M_dispose widget arguments) this s of
        Inl err \<Rightarrow> Inl err
      | Inr s' \<Rightarrow> Inr (None, s'))"

text \<open>The bulk method of a given name.\<close>

fun bulk ::
  "widget_method \<Rightarrow> (widget_method \<Rightarrow> widget \<Rightarrow> 'a \<Rightarrow> 's \<Rightarrow> ('e \<times> 's) + 's) \<Rightarrow> collection \<Rightarrow> 'a \<Rightarrow> 's
     \<Rightarrow> ('e \<times> 's) + (collection option \<times> 's)" where
  "bulk M_set = wc_set"
| "bulk M_on = wc_on"
| "bulk M_off = wc_off"
| "bulk M_once = wc_once"
| "bulk M_trigger = wc_trigger"
| "bulk M_animate = wc_animate"
| "bulk M_dispose = wc_dispose"

text \<open>
  A widget method for the examples: it adds the call to a list of the calls made, and
  throws on the widgets whose \<open>cid\<close> is in \<open>failing\<close>.
\<close>

definition recording_call ::
  "string set \<Rightarrow> widget_method \<Rightarrow> widget \<Rightarrow> 'a \<Rightarrow> (widget_method \<times> string \<times> 'a) list
     \<Rightarrow> (string \<times> (widget_method \<times> string \<times> 'a) list) + (widget_method \<times> string \<times> 'a) list" where
  "recording_call failing m w a made =
     (if cid w \<in> failing then Inl (''failed on '' @ cid w, made @ [(m, cid w, a)])
      else Inr (made @ [(m, cid w, a)]))"

section \<open>App.getResourceLocation\<close>

text \<open>
  \<open>path.split(/\/+/)\<close>: the pieces of the string between its runs of slashes, the
  empty string before a leading and after a trailing run.
\<close>

function split_slashes :: "string \<Rightarrow> string list" where
  "split_slashes s =
     (let segment = takeWhile (\<lambda>c. c \<noteq> CHR ''/'') s;
          rest = dropWhile (\<lambda>c. c \<noteq> CHR ''/'') s
      in if rest = [] then [segment]
         else segment # split_slashes (dropWhile (\<lambda>c. c = CHR ''/'') rest))"
  by pat_completeness auto
termination
proof (relation "measure length")
  show "wf (measure length)" by simp
next
  fix s :: string and x xa
  assume x: "x = takeWhile (\<lambda>c. c \<noteq> CHR ''/'') s"
    and xa: "xa = dropWhile (\<lambda>c. c \<noteq> CHR ''/'') s" and ne: "xa \<noteq> []"
  from xa ne have "hd xa = CHR ''/''"
    using hd_dropWhile [of "\<lambda>c. c \<noteq> CHR ''/''" s] by auto
  with ne obtain t where t: "xa = CHR ''/'' # t"
    by (cases xa) auto
  have "length (dropWhile (\<lambda>c. c = CHR ''/'') xa) \<le> length t"
    unfolding t using length_dropWhile_le [of "\<lambda>c. c = CHR ''/''" t] by simp
  moreover have "length xa \<le> length s"
    unfolding xa by (rule length_dropWhile_le)
  ultimately show "(dropWhile (\<lambda>c. c = CHR ''/'') xa, s) \<in> measure length"
    using t by simp
qed

declare split_slashes.simps [simp del]

text \<open>\<open>Array.prototype.join\<close>.\<close>

fun join :: "string \<Rightarrow> string list \<Rightarrow> string" where
  "join sep [] = []"
| "join sep [x] = x"
| "join sep (x # y # ys) = x @ sep @ join sep (y # ys)"

text \<open>
  The callback of \<open>map\<close> in \<open>normalizePath\<close>, applied to the segments from left to right:
  the first segment \<open>..\<close> throws. \<open>toValueString\<close>, of the module \<open>Console\<close>, is not among
  the source files and is a parameter.
\<close>

fun map_segments :: "(string \<Rightarrow> string) \<Rightarrow> string \<Rightarrow> string list \<Rightarrow> error + string list" where
  "map_segments toValueString path [] = Inr []"
| "map_segments toValueString path (segment # segments) =
     (if segment = ''..'' then
        Inl (Error (''Path '' @ toValueString path @ '' must not contain '' @
                    [CHR 0x22] @ ''..'' @ [CHR 0x22]))
      else
        (case map_segments toValueString path segments of
           Inl err \<Rightarrow> Inl err
         | Inr mapped \<Rightarrow> Inr ((if segment = ''.'' then [] else segment) # mapped)))"

definition normalizePath :: "(string \<Rightarrow> string) \<Rightarrow> string \<Rightarrow> error + string" where
  "normalizePath toValueString path =
     (case map_segments toValueString path (split_slashes path) of
        Inl err \<Rightarrow> Inl err
      | Inr mapped \<Rightarrow> Inr (join ''/'' (filter (\<lambda>string. string \<noteq> []) mapped)))"

text \<open>
  The app keeps the base URL in its property \<open>_resourceBaseUrl\<close>, \<open>None\<close> until it is
  defined. The property is defined neither writable nor configurable, so that defining
  it again with another value throws a TypeError. \<open>_nativeGet\<close> is a method of
  \<open>NativeObject\<close>, which is not among the source files, and is a parameter.
\<close>

record app =
  resourceBaseUrl :: "string option"

definition defineResourceBaseUrl :: "string \<Rightarrow> app \<Rightarrow> error + app" where
  "defineResourceBaseUrl v this =
     (case resourceBaseUrl this of
        None \<Rightarrow> Inr (this\<lparr>resourceBaseUrl := Some v\<rparr>)
      | Some old \<Rightarrow> if old = v then Inr this else Inl TypeError)"

text \<open>\<open>this._resourceBaseUrl\<close> as the left operand of \<open>+\<close> with a string.\<close>

definition read_resourceBaseUrl :: "app \<Rightarrow> string" where
  "read_resourceBaseUrl this =
     (case resourceBaseUrl this of None \<Rightarrow> ''undefined'' | Some base \<Rightarrow> base)"

text \<open>
  The argument \<open>path\<close> is \<open>None\<close> when it is \<open>null\<close> or \<open>undefined\<close>, and otherwise the
  string \<open>'' + path\<close>.
\<close>

definition getResourceLocation ::
  "(string \<Rightarrow> string) \<Rightarrow> (string \<Rightarrow> string) \<Rightarrow> string option \<Rightarrow> app
     \<Rightarrow> (error \<times> app) + (string \<times> app)" where
  "getResourceLocation nativeGet toValueString path this =
     (case (if resourceBaseUrl this = None \<or> resourceBaseUrl this = Some []
            then defineResourceBaseUrl (nativeGet ''resourceBaseUrl'') this
            else Inr this) of
        Inl err \<Rightarrow> Inl (err, this)
      | Inr this1 \<Rightarrow>
          (case (case path of
                   None \<Rightarrow> Inr []
                 | Some p \<Rightarrow>
                     (case normalizePath toValueString p of
                        Inl err \<Rightarrow> Inl err
                      | Inr normalized \<Rightarrow> Inr (''/'' @ normalized))) of
             Inl err \<Rightarrow> Inl (err, this1)
           | Inr subPath \<Rightarrow> Inr (read_resourceBaseUrl this1 @ subPath, this1)))"

text \<open>
  What the claim says of a path: its slash-separated segments, the pieces between one
  slash and the next.
\<close>

fun slash_separated :: "string \<Rightarrow> string list" where
  "slash_separated [] = [[]]"
| "slash_separated (c # cs) =
     (if c = CHR ''/'' then [] # slash_separated cs
      else (case slash_separated cs of
              [] \<Rightarrow> [[c]]
            | segment # segments \<Rightarrow> (c # segment) # segments))"

section \<open>An example tree\<close>

text \<open>
  A page with three children, the second of which has a child of its own, and the
  parent of each widget in this tree.
\<close>

definition example_a :: widget where
  "example_a = Widget ''$2'' (Some ''x'') [] ''TextInput'' []"

definition example_g :: widget where
  "example_g = Widget ''$5'' None [''y''] ''Button'' []"

definition example_b :: widget where
  "example_b = Widget ''$3'' None [''y'', ''z''] ''Composite'' [example_g]"

definition example_c :: widget where
  "example_c = Widget ''$4'' None [] ''Button'' []"

definition example_root :: widget where
  "example_root = Widget ''$1'' None [] ''Page'' [example_a, example_b, example_c]"

text \<open>A composite whose only child has the \<open>cid\<close> \<open>toString\<close>.\<close>

definition example_t :: widget where
  "example_t = Widget ''toString'' None [] ''Button'' []"

definition example_p :: widget where
  "example_p = Widget ''$7'' None [] ''Composite'' [example_t]"

definition example_parent :: "widget \<Rightarrow> widget option" where
  "example_parent w =
     (if w = example_a \<or> w = example_b \<or> w = example_c then Some example_root
      else if w = example_g then Some example_b
      else None)"

section \<open>Properties of the client stub\<close>

lemma object_assign_frame:
  "calls_log (state_of (object_assign target source s)) = calls_log s"
  "pending (state_of (object_assign target source s)) = pending s"
  "objects (state_of (object_assign target source s)) = objects s"
  "objects_proto (state_of (object_assign target source s)) = objects_proto s"
  by (cases target; cases source; simp)+

lemma stub_set_frame:
  "calls_log (state_of (stub_set oid properties s)) =
     calls_log s @ [[(F_op, JStr ''set''), (F_id, JStr oid), (F_properties, of_ref properties)]]"
  "pending (state_of (stub_set oid properties s)) = pending s"
  by (auto simp: stub_set_def push_call_def assign_entry_def new_object_def Let_def
      object_assign_frame split: sum.splits)

lemma exec_log: "calls_log (state_of (exec x s)) = calls_log s @ [record_of x]"
  by (cases x)
     (auto simp: stub_create_def stub_get_def stub_set_frame stub_call_def stub_listen_def
        stub_destroy_def push_call_def assign_entry_def Let_def)

lemma exec_pending: "pending (state_of (exec x s)) = pending s"
  by (cases x)
     (auto simp: stub_create_def stub_get_def stub_set_frame stub_call_def stub_listen_def
        stub_destroy_def push_call_def assign_entry_def Let_def)

lemma issue_log: "calls_log (issue ops s) = calls_log s @ map record_of ops"
  by (induction ops arbitrary: s) (simp_all add: exec_log)

lemma issue_pending: "pending (issue ops s) = pending s"
  by (induction ops arbitrary: s) (simp_all add: exec_pending)

lemma field_cases: "k \<in> set all_fields"
  by (cases k) (simp_all add: all_fields_def)

lemma keys_match_iff:
  "keys_match f c ks \<longleftrightarrow> (\<forall>k\<in>set ks. \<forall>v. f k = Some v \<longrightarrow> strict_eq v (get_field c k))"
  by (induction ks) (auto split: option.splits)

lemma keys_match_all: "keys_match f c all_fields = matches_filter f c"
  using field_cases by (auto simp: keys_match_iff matches_filter_def)

lemma flush_empty: "pending s = [] \<Longrightarrow> flush s = Inr ((), s)"
  by (simp add: flush_def)

text \<open>
  Claim C1. When the bridge has nothing buffered, then after any sequence of operations
  issued through the client, \<open>calls()\<close> returns the records that were in the log before,
  followed by one record for each operation, in the order of issue; and \<open>calls(filter)\<close>
  returns, in the same order, exactly those of them whose field is \<open>===\<close> to the filter's
  value at every key of the filter. The state is the one the operations left.
\<close>

theorem calls_in_order:
  "pending s = [] \<longrightarrow>
     stub_calls None (issue ops s) = Inr (calls_log s @ map record_of ops, issue ops s) \<and>
     stub_calls (Some f) (issue ops s) =
       Inr (filter (matches_filter f) (calls_log s @ map record_of ops), issue ops s)"
  by (simp add: stub_calls_def flush_empty issue_pending issue_log stub_select_def keys_match_all)








text \<open>
  Claim C3, as amended. A \<open>destroy(id)\<close> issued while \<open>$objects\<close> has no entry for \<open>id\<close>
  does not throw: it returns, having pushed a \<open>destroy\<close> record to the log and changed
  nothing else.
\<close>

theorem destroy_unknown:
  "objects s oid = None \<longrightarrow>
     stub_destroy oid s = Inr ((), s\<lparr>calls_log := calls_log s @ [record_of (Destroy oid)]\<rparr>)"
proof
  assume "objects s oid = None"
  then have "(objects s)(oid := None) = objects s"
    by (simp add: fun_upd_idem)
  then show "stub_destroy oid s =
      Inr ((), s\<lparr>calls_log := calls_log s @ [record_of (Destroy oid)]\<rparr>)"
    by (simp add: stub_destroy_def push_call_def Let_def)
qed

text \<open>
  Claim C3 as stated fails: on a new stub, which has no entry for \<open>w1\<close>, \<open>destroy('w1')\<close>
  returns.
\<close>

theorem destroy_unknown_counterexample:
  "objects (stub_new (\<lambda>a. Map.empty) 0) ''w1'' = None \<and>
   stub_destroy ''w1'' (stub_new (\<lambda>a. Map.empty) 0) =
     Inr ((), \<lparr>calls_log = [[(F_op, JStr ''destroy''), (F_id, JStr ''w1'')]],
               objects = Map.empty, objects_proto = None, heap = (\<lambda>a. Map.empty),
               next_addr = 0, pending = []\<rparr>)"
  by (simp add: stub_destroy_def push_call_def stub_new_def Let_def)


theorem calls_in_order_witness:
  "pending (stub_new (\<lambda>a. Map.empty) 2) = [] \<and>
   stub_calls None
     (issue [Create ''w1'' (JStr ''Button'') (Some 0), Set ''w1'' (Some 1), Set ''w2'' None,
             Get ''w1'' (JStr ''text''), Destroy ''w1'']
        (stub_new (\<lambda>a. Map.empty) 2)) =
     Inr ([[(F_op, JStr ''create''), (F_id, JStr ''w1''), (F_type, JStr ''Button''),
            (F_properties, JRef 0)],
           [(F_op, JStr ''set''), (F_id, JStr ''w1''), (F_properties, JRef 1)],
           [(F_op, JStr ''set''), (F_id, JStr ''w2''), (F_properties, JUndefined)],
           [(F_op, JStr ''get''), (F_id, JStr ''w1''), (F_property, JStr ''text'')],
           [(F_op, JStr ''destroy''), (F_id, JStr ''w1'')]],
          issue [Create ''w1'' (JStr ''Button'') (Some 0), Set ''w1'' (Some 1), Set ''w2'' None,
                 Get ''w1'' (JStr ''text''), Destroy ''w1'']
            (stub_new (\<lambda>a. Map.empty) 2)) \<and>
   stub_calls (Some [F_op \<mapsto> JStr ''set'', F_id \<mapsto> JStr ''w1''])
     (issue [Create ''w1'' (JStr ''Button'') (Some 0), Set ''w1'' (Some 1), Set ''w2'' None,
             Get ''w1'' (JStr ''text''), Destroy ''w1'']
        (stub_new (\<lambda>a. Map.empty) 2)) =
     Inr ([[(F_op, JStr ''set''), (F_id, JStr ''w1''), (F_properties, JRef 1)]],
          issue [Create ''w1'' (JStr ''Button'') (Some 0), Set ''w1'' (Some 1), Set ''w2'' None,
                 Get ''w1'' (JStr ''text''), Destroy ''w1'']
            (stub_new (\<lambda>a. Map.empty) 2))"
  using calls_in_order
    [of "stub_new (\<lambda>a. Map.empty) 2"
        "[Create ''w1'' (JStr ''Button'') (Some 0), Set ''w1'' (Some 1), Set ''w2'' None,
          Get ''w1'' (JStr ''text''), Destroy ''w1'']"
        "[F_op \<mapsto> JStr ''set'', F_id \<mapsto> JStr ''w1'']"]
  by (simp add: stub_new_def keys_match_all [symmetric] all_fields_def get_field_def)





theorem destroy_unknown_witness:
  "objects (stub_new (\<lambda>a. Map.empty) 0) ''w7'' = None \<and>
   stub_destroy ''w7'' (stub_new (\<lambda>a. Map.empty) 0) =
     Inr ((), (stub_new (\<lambda>a. Map.empty) 0)
                \<lparr>calls_log := [[(F_op, JStr ''destroy''), (F_id, JStr ''w7'')]]\<rparr>)"
  using destroy_unknown [of "stub_new (\<lambda>a. Map.empty) 0" "''w7''"]
  by (simp add: stub_new_def)

section \<open>Properties of selection\<close>

lemma getFilter_step:
  "getFilter sel w m = (b, m1) \<Longrightarrow>
     b = (cid w \<notin> seen_of m \<and> selector_test sel w) \<and>
     seen_of m1 = (if b then insert (cid w) (seen_of m) else seen_of m)"
  by (auto simp: getFilter_def seen_of_def matches_truthy_def Let_def split: if_splits)

lemma first_by_cid_append:
  "first_by_cid S (xs @ ys) = first_by_cid S xs @ first_by_cid (S \<union> cid ` set xs) ys"
  by (induction xs arbitrary: S) (auto simp: insert_absorb)

lemma array_filter_first:
  "array_filter (getFilter sel) ws m = (r, m') \<Longrightarrow>
     r = first_by_cid (seen_of m) (filter (selector_test sel) ws) \<and>
     seen_of m' = seen_of m \<union> cid ` set (filter (selector_test sel) ws)"
proof (induction ws arbitrary: m r m')
  case Nil
  then show ?case by simp
next
  case (Cons w ws)
  obtain b m1 where step: "getFilter sel w m = (b, m1)"
    by (cases "getFilter sel w m")
  obtain rest m2 where rec: "array_filter (getFilter sel) ws m1 = (rest, m2)"
    by (cases "array_filter (getFilter sel) ws m1")
  from Cons.prems step rec have r: "r = (if b then w # rest else rest)" and m': "m' = m2"
    by simp_all
  note s = getFilter_step [OF step]
  note ih = Cons.IH [OF rec]
  show ?case
    using r m' s ih by (auto simp: insert_absorb)
qed

lemma filter_preorder:
  "filter P (preorder (Widget c i cl n ks)) =
     (if P (Widget c i cl n ks) then [Widget c i cl n ks] else []) @
     filter P (concat (map preorder ks))"
  by simp

lemma deepSelect_first:
  "f = getFilter sel \<Longrightarrow> deepSelect result ws f m = (r, m') \<Longrightarrow>
     r = result @ first_by_cid (seen_of m) (filter (selector_test sel) (concat (map preorder ws))) \<and>
     seen_of m' = seen_of m \<union> cid ` set (filter (selector_test sel) (concat (map preorder ws)))"
proof (induction result ws f m arbitrary: r m' rule: deepSelect.induct)
  case (1 result f m)
  then show ?case by simp
next
  case (2 result c i cl n ks iterable f m)
  let ?w = "Widget c i cl n ks"
  let ?P = "selector_test sel"
  let ?sub = "filter ?P (concat (map preorder ks))"
  let ?tail = "filter ?P (concat (map preorder iterable))"
  note f = \<open>f = getFilter sel\<close>
  obtain b m1 where step: "f ?w m = (b, m1)"
    by (cases "f ?w m")
  define result1 where "result1 = (if b then result @ [?w] else result)"
  obtain result2 m2 where kids:
    "(if ks \<noteq> [] then deepSelect result1 ks f m1 else (result1, m1)) = (result2, m2)"
    by (cases "if ks \<noteq> [] then deepSelect result1 ks f m1 else (result1, m1)")
  have rest: "deepSelect result2 iterable f m2 = (r, m')"
    using "2.prems"(2) step kids [unfolded result1_def] by (simp add: Let_def)
  have s: "b = (cid ?w \<notin> seen_of m \<and> ?P ?w)"
    "seen_of m1 = (if b then insert (cid ?w) (seen_of m) else seen_of m)"
    using getFilter_step [of sel ?w m b m1] step f by simp_all
  have ih1: "result2 = result1 @ first_by_cid (seen_of m1) ?sub \<and>
     seen_of m2 = seen_of m1 \<union> cid ` set ?sub"
  proof (cases "ks = []")
    case True
    with kids show ?thesis by simp
  next
    case False
    with kids have "deepSelect result1 ks f m1 = (result2, m2)" by simp
    from "2.IH"(1) [OF refl refl step [symmetric] result1_def False f this]
    show ?thesis .
  qed
  have ih2: "r = result2 @ first_by_cid (seen_of m2) ?tail \<and>
     seen_of m' = seen_of m2 \<union> cid ` set ?tail"
    using "2.IH"(2) [OF refl refl step [symmetric] result1_def refl kids [symmetric] f rest] .
  have seen1: "seen_of m1 = seen_of m \<union> cid ` set (filter ?P [?w])"
    using s by auto
  have first: "result1 = result @ first_by_cid (seen_of m) (filter ?P [?w])"
    using s by (auto simp: result1_def)
  have split: "filter ?P (concat (map preorder (?w # iterable))) = filter ?P [?w] @ ?sub @ ?tail"
    by simp
  show ?case
    unfolding split first_by_cid_append
    using ih1 ih2 seen1 first by (simp add: Un_assoc image_Un)
qed

lemma first_by_cid_distinct:
  "distinct (map cid (first_by_cid S xs)) \<and> cid ` set (first_by_cid S xs) \<inter> S = {}"
  by (induction xs arbitrary: S) auto




lemma select_first:
  "selector \<noteq> SelString ''*'' \<or> deep \<Longrightarrow>
   select (Some arr) selector deep =
     first_by_cid (set Object_prototype_keys)
       (filter (selector_test selector) (if deep then concat (map preorder arr) else arr))"
proof (cases "arr = []")
  case True
  then show ?thesis by (simp add: select_def)
next
  case False
  assume sel: "selector \<noteq> SelString ''*'' \<or> deep"
  have empty: "seen_of Map.empty = set Object_prototype_keys"
    by (auto simp: seen_of_def matches_truthy_def)
  show ?thesis
  proof (cases deep)
    case True
    obtain r m' where run: "deepSelect [] arr (getFilter selector) Map.empty = (r, m')"
      by (cases "deepSelect [] arr (getFilter selector) Map.empty")
    from deepSelect_first [OF refl run]
    have "r = first_by_cid (set Object_prototype_keys)
        (filter (selector_test selector) (concat (map preorder arr)))"
      by (simp add: empty)
    with run True False show ?thesis
      by (simp add: select_def Let_def)
  next
    case deep: False
    obtain r m' where run: "array_filter (getFilter selector) arr Map.empty = (r, m')"
      by (cases "array_filter (getFilter selector) arr Map.empty")
    from array_filter_first [OF run]
    have "r = first_by_cid (set Object_prototype_keys) (filter (selector_test selector) arr)"
      by (simp add: empty)
    with run deep False sel show ?thesis
      by (simp add: select_def Let_def)
  qed
qed

lemma select_distinct:
  "selector \<noteq> SelString ''*'' \<or> deep \<Longrightarrow> distinct (map cid (select array selector deep))"
proof (cases array)
  case None
  then show ?thesis by (simp add: select_def)
next
  case (Some arr)
  assume "selector \<noteq> SelString ''*'' \<or> deep"
  from select_first [OF this] Some show ?thesis
    by (simp add: first_by_cid_distinct)
qed

lemma select_star: "select (Some arr) (SelString ''*'') False = arr"
  by (simp add: select_def)

lemma parent_loop_distinct: "distinct result \<Longrightarrow> distinct (parent_loop parent result ws)"
  by (induction ws arbitrary: result) (auto split: option.splits)


text \<open>
  Claim C4, as amended. A collection made with a selector other than \<open>*\<close> (by the
  constructor, \<open>filter\<close> or \<open>children\<close>) or by a deep selection (the constructor with
  \<open>deep\<close>, \<open>find\<close>) holds each \<open>cid\<close> at most once, whatever the input; the collection
  that \<open>parent\<close> returns holds each parent at most once; and a shallow selection with
  the selector \<open>*\<close>, with the empty string or with no selector is the input array as it
  is, duplicates included.
\<close>

theorem no_duplicates:
  "(or_star selector \<noteq> SelString ''*'' \<or> deep \<longrightarrow>
      distinct (map cid (WidgetCollection array selector deep))) \<and>
   (or_star selector \<noteq> SelString ''*'' \<longrightarrow>
      distinct (map cid (wc_filter selector this)) \<and>
      distinct (map cid (wc_children selector this))) \<and>
   distinct (map cid (wc_find selector this)) \<and>
   (wc_parent parent this = Some parents \<longrightarrow> distinct parents) \<and>
   WidgetCollection (Some arr) None False = arr \<and>
   WidgetCollection (Some arr) (Some (SelString ''*'')) False = arr \<and>
   WidgetCollection (Some arr) (Some (SelString [])) False = arr"
proof -
  have "wc_parent parent this = Some parents \<longrightarrow> distinct parents"
    using parent_loop_distinct [of "[]" parent this]
    by (auto simp: wc_parent_def WidgetCollection_def select_star Let_def split: if_splits)
  then show ?thesis
    by (simp add: WidgetCollection_def wc_filter_def wc_children_def wc_find_def
        select_distinct select_star)
qed


text \<open>
  Claim C7. The matcher of a string selector: \<open>*\<close> matches every widget; \<open>#\<close> followed
  by a string matches the widgets whose \<open>id\<close> is that string; \<open>.\<close> followed by a string
  matches the widgets whose \<open>classList\<close> has that string as a member; and any other
  string matches the widgets whose constructor has that string as its name.
\<close>

theorem createMatcher_string:
  "createMatcher (SelString ''*'') w \<and>
   (createMatcher (SelString (CHR ''#'' # expectedId)) w \<longleftrightarrow> wid w = Some expectedId) \<and>
   (createMatcher (SelString (CHR ''.'' # expectedClass)) w \<longleftrightarrow>
      expectedClass \<in> set (classList w)) \<and>
   (s \<noteq> ''*'' \<and> take 1 s \<noteq> ''#'' \<and> take 1 s \<noteq> ''.'' \<longrightarrow>
      (createMatcher (SelString s) w \<longleftrightarrow> s = constructor_name w))"
  by auto

section \<open>Properties of bulk dispatch\<close>

lemma forEach_total:
  "forEach (\<lambda>w s. Inr (step w s)) ws s = Inr (foldl (\<lambda>s w. step w s) s ws)"
  by (induction ws arbitrary: s) simp_all

lemma forEach_chain:
  "length ss = Suc (length ws) \<Longrightarrow> ss ! 0 = s \<Longrightarrow>
   (\<forall>i<length ws. f (ws ! i) (ss ! i) = Inr (ss ! Suc i)) \<Longrightarrow>
   forEach f ws s = Inr (ss ! length ws)"
proof (induction ws arbitrary: ss s)
  case Nil
  then show ?case by simp
next
  case (Cons w ws)
  from Cons.prems(1) obtain s0 ss' where ss: "ss = s0 # ss'" and len: "length ss' = Suc (length ws)"
    by (cases ss) auto
  from Cons.prems(2) ss have s0: "s0 = s" by simp
  from Cons.prems(3) [rule_format, of 0] ss s0 have first: "f w s = Inr (ss' ! 0)"
    by simp
  have rest: "\<forall>i<length ws. f (ws ! i) (ss' ! i) = Inr (ss' ! Suc i)"
  proof (intro allI impI)
    fix i assume "i < length ws"
    then show "f (ws ! i) (ss' ! i) = Inr (ss' ! Suc i)"
      using Cons.prems(3) [rule_format, of "Suc i"] ss by simp
  qed
  from Cons.IH [OF len refl rest] first ss show ?case
    by simp
qed

lemma forEach_append:
  "forEach f (xs @ ys) s =
     (case forEach f xs s of Inl err \<Rightarrow> Inl err | Inr s' \<Rightarrow> forEach f ys s')"
  by (induction xs arbitrary: s) (auto split: sum.splits)

lemma bulk_forEach:
  "bulk m invoke this arguments s =
     (case forEach (\<lambda>w. invoke m w arguments) this s of
        Inl err \<Rightarrow> Inl err
      | Inr s' \<Rightarrow> Inr (if m = M_animate \<or> m = M_dispose then None else Some this, s'))"
  by (cases m)
     (simp_all add: wc_set_def wc_on_def wc_off_def wc_once_def wc_trigger_def
        wc_animate_def wc_dispose_def)

text \<open>
  Claim C9. When the calls on the members return, a bulk method is the call of the
  widget method of its name, with the arguments it was given, on each member in the
  order of the collection, each in the state the one before has left; \<open>set\<close>, \<open>on\<close>,
  \<open>off\<close>, \<open>once\<close> and \<open>trigger\<close> return the collection, \<open>animate\<close> and \<open>dispose\<close> nothing.
  The first part is for a widget method that always returns, the second for any chain
  of states through which the calls on the members return.
\<close>

theorem bulk_dispatch:
  "bulk m (\<lambda>m w a s. Inr (step m w a s)) this arguments s =
     Inr (if m = M_animate \<or> m = M_dispose then None else Some this,
          foldl (\<lambda>s w. step m w arguments s) s this) \<and>
   (length ss = Suc (length this) \<and> ss ! 0 = s \<and>
    (\<forall>i<length this. invoke m (this ! i) arguments (ss ! i) = Inr (ss ! Suc i)) \<longrightarrow>
      bulk m invoke this arguments s =
        Inr (if m = M_animate \<or> m = M_dispose then None else Some this, ss ! length this))"
proof -
  have "bulk m invoke this arguments s =
        Inr (if m = M_animate \<or> m = M_dispose then None else Some this, ss ! length this)"
    if "length ss = Suc (length this)" "ss ! 0 = s"
      "\<forall>i<length this. invoke m (this ! i) arguments (ss ! i) = Inr (ss ! Suc i)"
    using forEach_chain [of ss this s "\<lambda>w. invoke m w arguments", OF that]
    by (simp add: bulk_forEach)
  then show ?thesis
    by (simp add: bulk_forEach forEach_total)
qed

text \<open>
  Claim C5, as amended. When the calls on the members before some member have
  returned, in order, and the call on that member throws, the bulk method throws the
  same exception and leaves the state that call left: the exception is not swallowed,
  and no member after it is called.
\<close>

theorem bulk_failure:
  "forEach (\<lambda>w. invoke m w arguments) before s = Inr s1 \<and>
   invoke m widget arguments s1 = Inl (err, s2) \<longrightarrow>
     bulk m invoke (before @ widget # after) arguments s = Inl (err, s2)"
  by (simp add: bulk_forEach forEach_append)

section \<open>Properties of the resource location\<close>

lemma slash_separated_nonempty: "slash_separated s \<noteq> []"
  by (induction s) (auto split: list.splits)

lemma slash_separated_unfold:
  "slash_separated s =
     takeWhile (\<lambda>c. c \<noteq> CHR ''/'') s #
     (case dropWhile (\<lambda>c. c \<noteq> CHR ''/'') s of [] \<Rightarrow> [] | c # rest \<Rightarrow> slash_separated rest)"
proof (induction s)
  case Nil
  then show ?case by simp
next
  case (Cons a s)
  then show ?case
    by (cases "slash_separated s") (auto simp: slash_separated_nonempty)
qed

lemma slash_separated_skip:
  "filter (\<lambda>x. x \<noteq> []) (slash_separated (dropWhile (\<lambda>c. c = CHR ''/'') t)) =
   filter (\<lambda>x. x \<noteq> []) (slash_separated t)"
  by (induction t) auto

lemma split_slashes_segments:
  "filter (\<lambda>x. x \<noteq> []) (split_slashes s) = filter (\<lambda>x. x \<noteq> []) (slash_separated s)"
proof (induction s rule: split_slashes.induct)
  case (1 s)
  let ?seg = "takeWhile (\<lambda>c. c \<noteq> CHR ''/'') s"
  let ?rest = "dropWhile (\<lambda>c. c \<noteq> CHR ''/'') s"
  show ?case
  proof (cases "?rest = []")
    case True
    have "split_slashes s = [?seg]"
      using True by (subst split_slashes.simps) (simp only: Let_def refl if_True)
    moreover have "slash_separated s = [?seg]"
      using True by (subst slash_separated_unfold) (simp only: list.case)
    ultimately show ?thesis by simp
  next
    case False
    then obtain c t where ct: "?rest = c # t"
      by (cases ?rest) auto
    then have c: "c = CHR ''/''"
      using hd_dropWhile [of "\<lambda>c. c \<noteq> CHR ''/''" s] False by (metis list.sel(1))
    have ih: "filter (\<lambda>x. x \<noteq> []) (split_slashes (dropWhile (\<lambda>c. c = CHR ''/'') ?rest)) =
        filter (\<lambda>x. x \<noteq> []) (slash_separated (dropWhile (\<lambda>c. c = CHR ''/'') ?rest))"
      using "1.IH" [OF refl refl False] .
    have "filter (\<lambda>x. x \<noteq> []) (slash_separated (dropWhile (\<lambda>c. c = CHR ''/'') ?rest)) =
        filter (\<lambda>x. x \<noteq> []) (slash_separated t)"
      unfolding ct c using slash_separated_skip [of t] by simp
    with ih have tail: "filter (\<lambda>x. x \<noteq> []) (split_slashes (dropWhile (\<lambda>c. c = CHR ''/'') ?rest)) =
        filter (\<lambda>x. x \<noteq> []) (slash_separated t)"
      by simp
    have lhs: "split_slashes s = ?seg # split_slashes (dropWhile (\<lambda>c. c = CHR ''/'') ?rest)"
      using False by (subst split_slashes.simps) (simp only: Let_def if_False)
    have rhs: "slash_separated s = ?seg # slash_separated t"
      using ct by (subst slash_separated_unfold) (simp only: list.case)
    show ?thesis
      unfolding lhs rhs using tail by simp
  qed
qed

lemma map_segments_eq:
  "map_segments tvs p segs =
     (if ''..'' \<in> set segs
      then Inl (Error (''Path '' @ tvs p @ '' must not contain '' @ [CHR 0x22] @ ''..'' @ [CHR 0x22]))
      else Inr (map (\<lambda>s. if s = ''.'' then [] else s) segs))"
  by (induction segs) auto

lemma filter_mapped:
  "filter (\<lambda>x. x \<noteq> []) (map (\<lambda>s. if s = ''.'' then [] else s) segs) =
   filter (\<lambda>s. s \<noteq> ''.'') (filter (\<lambda>x. x \<noteq> []) segs)"
  by (induction segs) auto

lemma dotdot_segments:
  "''..'' \<in> set (split_slashes p) \<longleftrightarrow> ''..'' \<in> set (slash_separated p)"
proof -
  have "''..'' \<in> set (filter (\<lambda>x. x \<noteq> []) (split_slashes p)) \<longleftrightarrow>
        ''..'' \<in> set (filter (\<lambda>x. x \<noteq> []) (slash_separated p))"
    by (simp only: split_slashes_segments)
  then show ?thesis by simp
qed

lemma normalizePath_eq:
  "normalizePath tvs p =
     (if ''..'' \<in> set (slash_separated p)
      then Inl (Error (''Path '' @ tvs p @ '' must not contain '' @ [CHR 0x22] @ ''..'' @ [CHR 0x22]))
      else Inr (join ''/'' (filter (\<lambda>s. s \<noteq> ''.'') (filter (\<lambda>x. x \<noteq> []) (slash_separated p)))))"
  by (simp add: normalizePath_def map_segments_eq dotdot_segments filter_mapped
      split_slashes_segments)

text \<open>
  Claim C10. On an app whose base URL is not yet defined, or is the one the native side
  gives, \<open>getResourceLocation\<close> returns the base URL alone for a path that is \<open>null\<close> or
  \<open>undefined\<close>; throws when a slash-separated segment of the path is \<open>..\<close>; and otherwise
  returns the base URL, a slash, and the segments of the path other than the empty ones
  and \<open>.\<close>, joined by single slashes.
\<close>

theorem getResourceLocation_path:
  "resourceBaseUrl this = None \<or> resourceBaseUrl this = Some (nativeGet ''resourceBaseUrl'') \<longrightarrow>
   getResourceLocation nativeGet toValueString path this =
     (let base = nativeGet ''resourceBaseUrl'';
          this' = this\<lparr>resourceBaseUrl := Some base\<rparr>
      in case path of
           None \<Rightarrow> Inr (base, this')
         | Some p \<Rightarrow>
             if ''..'' \<in> set (slash_separated p)
             then Inl (Error (''Path '' @ toValueString p @ '' must not contain '' @
                              [CHR 0x22] @ ''..'' @ [CHR 0x22]), this')
             else Inr (base @ ''/'' @
                       join ''/'' (filter (\<lambda>s. s \<noteq> ''.'')
                                     (filter (\<lambda>s. s \<noteq> []) (slash_separated p))), this'))"
  by (auto simp: getResourceLocation_def defineResourceBaseUrl_def read_resourceBaseUrl_def
      normalizePath_eq Let_def split: option.splits)

section \<open>The properties at work on the examples\<close>

lemmas example_defs =
  example_a_def example_b_def example_c_def example_g_def example_root_def example_t_def
  example_p_def

text \<open>
  Claim C4 as stated fails: a collection made from an array that holds the same proxy
  twice, with no selector, holds it twice.
\<close>

theorem no_duplicates_counterexample:
  "WidgetCollection (Some [example_c, example_c]) None False = [example_c, example_c] \<and>
   \<not> distinct (map cid (WidgetCollection (Some [example_c, example_c]) None False))"
  by (simp add: WidgetCollection_def select_def example_c_def)

theorem no_duplicates_witness:
  "or_star (Some (SelString ''Button'')) \<noteq> SelString ''*'' \<and>
   wc_parent example_parent [example_a, example_g, example_c, example_g] =
     Some [example_root, example_b] \<and>
   distinct (map cid (WidgetCollection (Some [example_c, example_g, example_c])
                        (Some (SelString ''Button'')) False)) \<and>
   distinct (map cid (wc_filter (Some (SelString ''Button''))
                        [example_a, example_g, example_c, example_g])) \<and>
   distinct (map cid (wc_children (Some (SelString ''Button''))
                        [example_a, example_g, example_c, example_g])) \<and>
   distinct (map cid (wc_find (Some (SelString ''Button''))
                        [example_a, example_g, example_c, example_g])) \<and>
   distinct [example_root, example_b]"
proof -
  have star: "or_star (Some (SelString ''Button'')) \<noteq> SelString ''*''"
    by simp
  have parents: "wc_parent example_parent [example_a, example_g, example_c, example_g] =
      Some [example_root, example_b]"
    by (simp add: wc_parent_def WidgetCollection_def select_def example_parent_def example_defs)
  from star parents
    no_duplicates
      [where selector = "Some (SelString ''Button'')" and deep = False
         and array = "Some [example_c, example_g, example_c]"
         and this = "[example_a, example_g, example_c, example_g]"
         and parent = example_parent and parents = "[example_root, example_b]"]
  show ?thesis by simp
qed



theorem createMatcher_string_witness:
  "''Button'' \<noteq> ''*'' \<and> take 1 ''Button'' \<noteq> ''#'' \<and> take 1 ''Button'' \<noteq> ''.'' \<and>
   createMatcher (SelString ''*'') example_g \<and>
   createMatcher (SelString ''#x'') example_a \<and>
   \<not> createMatcher (SelString ''#x'') example_g \<and>
   createMatcher (SelString ''.z'') example_b \<and>
   \<not> createMatcher (SelString ''.z'') example_g \<and>
   createMatcher (SelString ''Button'') example_g \<and>
   \<not> createMatcher (SelString ''Button'') example_b"
  using createMatcher_string [of example_g "''x''" "''z''" "''Button''"]
    createMatcher_string [of example_a "''x''" "''z''" "''Button''"]
    createMatcher_string [of example_b "''x''" "''z''" "''Button''"]
  by (simp add: example_defs)

theorem bulk_dispatch_witness:
  "length [[], [(M_set, ''$2'', [''text'', ''v''])],
           [(M_set, ''$2'', [''text'', ''v'']), (M_set, ''$4'', [''text'', ''v''])]] =
     Suc (length [example_a, example_c]) \<and>
   recording_call {} M_set example_a [''text'', ''v''] [] =
     Inr [(M_set, ''$2'', [''text'', ''v''])] \<and>
   recording_call {} M_set example_c [''text'', ''v''] [(M_set, ''$2'', [''text'', ''v''])] =
     Inr [(M_set, ''$2'', [''text'', ''v'']), (M_set, ''$4'', [''text'', ''v''])] \<and>
   wc_set (recording_call {}) [example_a, example_c] [''text'', ''v''] [] =
     Inr (Some [example_a, example_c],
          [(M_set, ''$2'', [''text'', ''v'']), (M_set, ''$4'', [''text'', ''v''])])"
proof -
  have calls:
    "recording_call {} M_set example_a [''text'', ''v''] [] =
       Inr [(M_set, ''$2'', [''text'', ''v''])]"
    "recording_call {} M_set example_c [''text'', ''v''] [(M_set, ''$2'', [''text'', ''v''])] =
       Inr [(M_set, ''$2'', [''text'', ''v'']), (M_set, ''$4'', [''text'', ''v''])]"
    by (simp_all add: recording_call_def example_defs)
  have chain: "\<forall>i<length [example_a, example_c].
      recording_call {} M_set ([example_a, example_c] ! i) [''text'', ''v'']
        ([[], [(M_set, ''$2'', [''text'', ''v''])],
          [(M_set, ''$2'', [''text'', ''v'']), (M_set, ''$4'', [''text'', ''v''])]] ! i) =
      Inr ([[], [(M_set, ''$2'', [''text'', ''v''])],
            [(M_set, ''$2'', [''text'', ''v'']), (M_set, ''$4'', [''text'', ''v''])]] ! Suc i)"
    using calls by (simp add: All_less_Suc)
  from calls chain
    bulk_dispatch
      [where m = M_set and this = "[example_a, example_c]" and arguments = "[''text'', ''v'']"
         and s = "[]" and invoke = "recording_call {}" and step = "\<lambda>m w a s. s"
         and ss = "[[], [(M_set, ''$2'', [''text'', ''v''])],
                    [(M_set, ''$2'', [''text'', ''v'']), (M_set, ''$4'', [''text'', ''v''])]]"]
  show ?thesis by (simp del: ex_simps) blast
qed

text \<open>
  Claim C5 as stated fails: when the call on the second of three members throws,
  \<open>set\<close> throws and the third member has not been called.
\<close>

theorem bulk_failure_counterexample:
  "recording_call {''$3''} M_set example_b [''text'', ''v''] [(M_set, ''$2'', [''text'', ''v''])] =
     Inl (''failed on $3'', [(M_set, ''$2'', [''text'', ''v'']), (M_set, ''$3'', [''text'', ''v''])]) \<and>
   wc_set (recording_call {''$3''}) [example_a, example_b, example_c] [''text'', ''v''] [] =
     Inl (''failed on $3'', [(M_set, ''$2'', [''text'', ''v'']), (M_set, ''$3'', [''text'', ''v''])]) \<and>
   (M_set, ''$4'', [''text'', ''v'']) \<notin>
     set [(M_set, ''$2'', [''text'', ''v'']), (M_set, ''$3'', [''text'', ''v''])]"
  by (simp add: wc_set_def recording_call_def example_defs)

theorem bulk_failure_witness:
  "forEach (\<lambda>w. recording_call {''$3''} M_dispose w ()) [example_a] [] =
     Inr [(M_dispose, ''$2'', ())] \<and>
   recording_call {''$3''} M_dispose example_b () [(M_dispose, ''$2'', ())] =
     Inl (''failed on $3'', [(M_dispose, ''$2'', ()), (M_dispose, ''$3'', ())]) \<and>
   wc_dispose (recording_call {''$3''}) [example_a, example_b, example_c, example_g] () [] =
     Inl (''failed on $3'', [(M_dispose, ''$2'', ()), (M_dispose, ''$3'', ())])"
proof -
  have before: "forEach (\<lambda>w. recording_call {''$3''} M_dispose w ()) [example_a] [] =
      Inr [(M_dispose, ''$2'', ())]"
    by (simp add: recording_call_def example_defs)
  have fails: "recording_call {''$3''} M_dispose example_b () [(M_dispose, ''$2'', ())] =
      Inl (''failed on $3'', [(M_dispose, ''$2'', ()), (M_dispose, ''$3'', ())])"
    by (simp add: recording_call_def example_defs)
  from before fails
    bulk_failure
      [where invoke = "recording_call {''$3''}" and m = M_dispose and arguments = "()"
         and before = "[example_a]" and s = "[]" and ?s1.0 = "[(M_dispose, ''$2'', ())]"
         and widget = example_b and err = "''failed on $3''"
         and ?s2.0 = "[(M_dispose, ''$2'', ()), (M_dispose, ''$3'', ())]"
         and after = "[example_c, example_g]"]
  show ?thesis by simp
qed

theorem getResourceLocation_path_witness:
  "getResourceLocation (\<lambda>k. ''http://host/app'') (\<lambda>p. p) (Some ''/img//./logo.png/'')
     \<lparr>resourceBaseUrl = None\<rparr> =
     Inr (''http://host/app/img/logo.png'', \<lparr>resourceBaseUrl = Some ''http://host/app''\<rparr>) \<and>
   getResourceLocation (\<lambda>k. ''http://host/app'') (\<lambda>p. p) (Some ''img/../secret'')
     \<lparr>resourceBaseUrl = Some ''http://host/app''\<rparr> =
     Inl (Error (''Path img/../secret must not contain '' @ [CHR 0x22] @ ''..'' @ [CHR 0x22]),
          \<lparr>resourceBaseUrl = Some ''http://host/app''\<rparr>) \<and>
   getResourceLocation (\<lambda>k. ''http://host/app'') (\<lambda>p. p) None \<lparr>resourceBaseUrl = None\<rparr> =
     Inr (''http://host/app'', \<lparr>resourceBaseUrl = Some ''http://host/app''\<rparr>) \<and>
   getResourceLocation (\<lambda>k. ''http://host/app'') (\<lambda>p. p) (Some []) \<lparr>resourceBaseUrl = None\<rparr> =
     Inr (''http://host/app/'', \<lparr>resourceBaseUrl = Some ''http://host/app''\<rparr>)"
  using getResourceLocation_path
      [where this = "\<lparr>resourceBaseUrl = None\<rparr>" and nativeGet = "\<lambda>k. ''http://host/app''"
         and toValueString = "\<lambda>p. p" and path = "Some ''/img//./logo.png/''"]
    getResourceLocation_path
      [where this = "\<lparr>resourceBaseUrl = Some ''http://host/app''\<rparr>"
         and nativeGet = "\<lambda>k. ''http://host/app''"
         and toValueString = "\<lambda>p. p" and path = "Some ''img/../secret''"]
    getResourceLocation_path
      [where this = "\<lparr>resourceBaseUrl = None\<rparr>" and nativeGet = "\<lambda>k. ''http://host/app''"
         and toValueString = "\<lambda>p. p" and path = None]
    getResourceLocation_path
      [where this = "\<lparr>resourceBaseUrl = None\<rparr>" and nativeGet = "\<lambda>k. ''http://host/app''"
         and toValueString = "\<lambda>p. p" and path = "Some []"]
  by (simp add: Let_def)

end
